theory Spec2Isabelle
  imports Main "HOL-Library.Sublist" "HOL-Library.Monad_Syntax"
begin

section \<open>Python values\<close>

text \<open>
  The notebook \<^verbatim>\<open>doc/Warning Submission Using Python.ipynb\<close> builds Python values that
  are sent as JSON. A Python \<^verbatim>\<open>str\<close> is modelled as a \<open>string\<close>; the two city names hold
  letters beyond ASCII, which are written as the bytes of their UTF-8 encoding (the script
  only concatenates and compares strings, and never measures their length). A \<^verbatim>\<open>dict\<close>
  with string keys is a map; equality of maps, like equality of Python dicts and of JSON
  objects, does not depend on the order of the keys.

  The script does no arithmetic on its two coordinates, so a \<^verbatim>\<open>float\<close> literal is kept
  as the decimal numeral written in the source: \<open>PFloat m e\<close> stands for the literal
  \<open>m * 10 ^ -e\<close> (26.5208 is \<open>PFloat 265208 4\<close>).
\<close>

datatype pyval =
    PNone
  | PInt int
  | PFloat int nat
  | PStr string
  | PList "pyval list"
  | PDict "string \<Rightarrow> pyval option"

type_synonym pydict = "string \<Rightarrow> pyval option"

text \<open>A scalar is a value that holds no other value: the fields of a flat record.\<close>

fun is_scalar :: "pyval \<Rightarrow> bool" where
  "is_scalar (PList _) = False"
| "is_scalar (PDict _) = False"
| "is_scalar _ = True"

section \<open>\<^verbatim>\<open>str.format\<close> with positional fields\<close>

text \<open>
  The script formats its strings with \<^verbatim>\<open>"{0}{1}".format(a, b)\<close> and
  \<^verbatim>\<open>'{0}:{1}'.format(a, b)\<close>. \<open>format\<close> is the part of Python's \<^verbatim>\<open>str.format\<close> these
  templates use, for arguments that are strings: literal text, the escapes \<^verbatim>\<open>{{\<close> and
  \<^verbatim>\<open>}}\<close>, and replacement fields \<^verbatim>\<open>{n}\<close> with a decimal positional index. The template is
  read once from left to right; the text put in for a field is not read again. \<open>None\<close> is
  returned where Python raises (a single brace, an index out of range) and for the fields
  this fragment leaves out (automatic numbering, keywords, conversions, format
  specifications).
\<close>

datatype fmt_mode =
    Text           \<comment> \<open>in literal text\<close>
  | Opened         \<comment> \<open>after a \<^verbatim>\<open>{\<close>\<close>
  | Index nat      \<comment> \<open>in a field, with the index read so far\<close>
  | Closing        \<comment> \<open>after a \<^verbatim>\<open>}\<close> in literal text\<close>

definition digit_of :: "char \<Rightarrow> nat option" where
  "digit_of c =
     (let n = (of_char c :: nat) in if 48 \<le> n \<and> n \<le> 57 then Some (n - 48) else None)"

fun scan :: "string list \<Rightarrow> fmt_mode \<Rightarrow> string \<Rightarrow> string option" where
  "scan args Text [] = Some []"
| "scan args Text (c # cs) =
     (if c = CHR ''{'' then scan args Opened cs
      else if c = CHR ''}'' then scan args Closing cs
      else map_option ((#) c) (scan args Text cs))"
| "scan args Opened [] = None"
| "scan args Opened (c # cs) =
     (if c = CHR ''{'' then map_option ((#) c) (scan args Text cs)
      else (case digit_of c of
              None \<Rightarrow> None
            | Some d \<Rightarrow> scan args (Index d) cs))"
| "scan args (Index n) [] = None"
| "scan args (Index n) (c # cs) =
     (if c = CHR ''}''
      then (if n < length args
            then map_option ((@) (args ! n)) (scan args Text cs)
            else None)
      else (case digit_of c of
              None \<Rightarrow> None
            | Some d \<Rightarrow> scan args (Index (10 * n + d)) cs))"
| "scan args Closing [] = None"
| "scan args Closing (c # cs) =
     (if c = CHR ''}'' then map_option ((#) c) (scan args Text cs) else None)"

definition format :: "string \<Rightarrow> string list \<Rightarrow> string option" where
  "format template args = scan args Text template"

section \<open>The script\<close>

text \<open>
  The notebook sets \<^verbatim>\<open>userid = "testuser"\<close> and \<^verbatim>\<open>secret_token = "mysecretkey"\<close> and
  asks its reader to put in their own. They are inputs of the model, together with the
  two random tokens \<^verbatim>\<open>uuid4().hex\<close>, in the order in which the script draws them.
\<close>

record inputs =
  in_userid :: string
  in_secret_token :: string
  in_hex_0 :: string
  in_hex_1 :: string

subsection \<open>First code cell: credentials, address and headers\<close>

definition url :: string where
  "url = ''https://87g554i96c.execute-api.us-east-1.amazonaws.com/Production/warning/intake''"

text \<open>\<^verbatim>\<open>headers = {'x-api-key':'{0}:{1}'.format(userid, secret_token)}\<close>\<close>

definition headers :: "string \<Rightarrow> string \<Rightarrow> (string \<Rightarrow> string option) option" where
  "headers uid token =
     do { key \<leftarrow> format ''{0}:{1}'' [uid, token];
          Some [''x-api-key'' \<mapsto> key] }"

subsection \<open>Second code cell: the submission\<close>

text \<open>
  \<^verbatim>\<open>warn_id_0 = "{0}{1}".format(userid, uuid4().hex)\<close>, and the same for
  \<^verbatim>\<open>warn_id_1\<close>. The random token \<^verbatim>\<open>uuid4().hex\<close> of each of the two calls is an input of
  the model.
\<close>

definition warn_id_0 :: "string \<Rightarrow> string \<Rightarrow> string option" where
  "warn_id_0 uid hex = format ''{0}{1}'' [uid, hex]"

definition warn_id_1 :: "string \<Rightarrow> string \<Rightarrow> string option" where
  "warn_id_1 uid hex = format ''{0}{1}'' [uid, hex]"


text \<open>The literal values of the two warnings.\<close>

definition country :: string where "country = ''Saudi Arabia''"
definition event_type :: string where "event_type = ''Military Activity''"
definition subtype :: string where "subtype = ''Conflict''"

definition event_date_0 :: string where "event_date_0 = ''2019-08-22''"
definition actor_0 :: string where "actor_0 = ''Royal Saudi Military''"
definition lat_0 :: pyval where "lat_0 = PFloat 265208 4"
definition lon_0 :: pyval where "lon_0 = PFloat 500245 4"
definition city_0 :: string where
  \<comment> \<open>\<^verbatim>\<open>Al Qa\<close>, U+0163, U+012B, \<^verbatim>\<open>f\<close>\<close>
  "city_0 = ''Al Qa'' @ [CHR 0xC5, CHR 0xA3, CHR 0xC4, CHR 0xAB] @ ''f''"
definition state_0 :: string where "state_0 = ''Eastern Province''"

definition warn_content_0 :: "string \<Rightarrow> pydict" where
  "warn_content_0 wid =
     [''Actor'' \<mapsto> PStr actor_0,
      ''City'' \<mapsto> PStr city_0,
      ''State'' \<mapsto> PStr state_0,
      ''Country'' \<mapsto> PStr country,
      ''Latitude'' \<mapsto> lat_0,
      ''Longitude'' \<mapsto> lon_0,
      ''Event_Date'' \<mapsto> PStr event_date_0,
      ''Event_Type'' \<mapsto> PStr event_type,
      ''Event_Subtype'' \<mapsto> PStr subtype,
      ''Warning_ID'' \<mapsto> PStr wid]"

definition event_date_1 :: string where "event_date_1 = ''2019-08-24''"
definition actor_1 :: string where "actor_1 = ''Royal Saudi Military''"
definition lat_1 :: pyval where "lat_1 = PFloat 265936 4"
definition lon_1 :: pyval where "lon_1 = PFloat 499875 4"
definition city_1 :: string where
  \<comment> \<open>\<^verbatim>\<open>Al \<close>, U+2018, \<^verbatim>\<open>Aw\<close>, U+0101, \<^verbatim>\<open>m\<close>, U+012B, \<^verbatim>\<open>yah\<close>\<close>
  "city_1 = ''Al '' @ [CHR 0xE2, CHR 0x80, CHR 0x98] @ ''Aw'' @ [CHR 0xC4, CHR 0x81] @ ''m''
              @ [CHR 0xC4, CHR 0xAB] @ ''yah''"
definition state_1 :: string where "state_1 = ''Eastern Province''"

definition warn_content_1 :: "string \<Rightarrow> pydict" where
  "warn_content_1 wid =
     [''Actor'' \<mapsto> PStr actor_1,
      ''City'' \<mapsto> PStr city_1,
      ''State'' \<mapsto> PStr state_1,
      ''Country'' \<mapsto> PStr country,
      ''Latitude'' \<mapsto> lat_1,
      ''Longitude'' \<mapsto> lon_1,
      ''Event_Date'' \<mapsto> PStr event_date_1,
      ''Event_Type'' \<mapsto> PStr event_type,
      ''Event_Subtype'' \<mapsto> PStr subtype,
      ''Warning_ID'' \<mapsto> PStr wid]"

text \<open>
  The cell creates the dictionary with an empty payload, builds the two warnings, and
  then stores their list under \<^verbatim>\<open>"payload"\<close>:
  \<^verbatim>\<open>submission = {"participant_id": userid, "payload": []}\<close> ...
  \<^verbatim>\<open>submission["payload"] = [warn_content_0, warn_content_1]\<close>.
\<close>

definition submission :: "string \<Rightarrow> string \<Rightarrow> string \<Rightarrow> pydict option" where
  "submission uid hex0 hex1 =
     do { let d = [''participant_id'' \<mapsto> PStr uid, ''payload'' \<mapsto> PList []];
          w0 \<leftarrow> warn_id_0 uid hex0;
          let c0 = warn_content_0 w0;
          w1 \<leftarrow> warn_id_1 uid hex1;
          let c1 = warn_content_1 w1;
          Some (d(''payload'' \<mapsto> PList [PDict c0, PDict c1])) }"

subsection \<open>Third code cell: the request\<close>

record http_request =
  req_method :: string
  req_url :: string
  req_headers :: "string \<Rightarrow> string option"
  req_json :: pyval

text \<open>
  Modelled from the spec: \<^verbatim>\<open>requests.post(url, headers=..., json=...)\<close> belongs to the
  HTTP client library, which is not part of the repository. Following the interface the
  specification gives (POST to the address, header \<^verbatim>\<open>Content-Type: application/json\<close>, the
  caller's headers, the object as JSON body), a call with \<^verbatim>\<open>json=\<close> issues a POST whose
  headers are the caller's, over the content type of a JSON body. The other headers a
  client adds by itself (user agent, length of the body) are left out.
\<close>

definition requests_post :: "string \<Rightarrow> (string \<Rightarrow> string option) \<Rightarrow> pyval \<Rightarrow> http_request" where
  "requests_post address hdrs body =
     \<lparr>req_method = ''POST'',
      req_url = address,
      req_headers = [''Content-Type'' \<mapsto> ''application/json''] ++ hdrs,
      req_json = body\<rparr>"

text \<open>The request of a run: \<^verbatim>\<open>requests.post(url, headers=headers, json=submission)\<close>.\<close>

definition request :: "inputs \<Rightarrow> http_request option" where
  "request inp =
     do { h \<leftarrow> headers (in_userid inp) (in_secret_token inp);
          s \<leftarrow> submission (in_userid inp) (in_hex_0 inp) (in_hex_1 inp);
          Some (requests_post url h (PDict s)) }"

text \<open>
  The remote endpoint is not part of the repository: it is a parameter, which gives for
  each request the value \<^verbatim>\<open>result.json()\<close> returns, or \<open>None\<close> when no response arrives or
  its body is not JSON (the library raises, and the script has no handler).
\<close>

type_synonym server = "http_request \<Rightarrow> pyval option"

text \<open>
  The effects of a run: \<open>Printed v\<close> is a call \<^verbatim>\<open>pprint(v)\<close>, and \<open>Posted q\<close> is a call of
  \<^verbatim>\<open>requests.post\<close> that asks for the request \<open>q\<close>. What the library puts on the wire
  for one call is its own matter and is not described here.
\<close>

datatype event = Printed pyval | Posted http_request

datatype py_error = FormatError | ResponseError

fun is_post :: "event \<Rightarrow> bool" where
  "is_post (Posted _) = True"
| "is_post (Printed _) = False"

text \<open>
  A run of the three code cells, in order: what it prints and posts, and the exception
  that ended it, if any. The second cell ends with \<^verbatim>\<open>pprint(submission)\<close>, the third
  is \<^verbatim>\<open>result = requests.post(...)\<close> and \<^verbatim>\<open>pprint(result.json())\<close>.
\<close>

definition script :: "inputs \<Rightarrow> server \<Rightarrow> event list \<times> py_error option" where
  "script inp srv =
     (case headers (in_userid inp) (in_secret_token inp) of
        None \<Rightarrow> ([], Some FormatError)
      | Some h \<Rightarrow>
         (case submission (in_userid inp) (in_hex_0 inp) (in_hex_1 inp) of
            None \<Rightarrow> ([], Some FormatError)
          | Some s \<Rightarrow>
             (let req = requests_post url h (PDict s) in
              case srv req of
                None \<Rightarrow> ([Printed (PDict s), Posted req], Some ResponseError)
              | Some r \<Rightarrow> ([Printed (PDict s), Posted req, Printed r], None))))"

subsection \<open>The values recorded in the notebook\<close>

definition notebook_hex_0 :: string where
  "notebook_hex_0 = ''150f4133679d4448aaa2174c945534bd''"

definition notebook_hex_1 :: string where
  "notebook_hex_1 = ''c392c27b6e3b4983925feeaa6c90dd68''"

definition notebook_inputs :: inputs where
  "notebook_inputs =
     \<lparr>in_userid = ''testuser'', in_secret_token = ''mysecretkey'',
      in_hex_0 = notebook_hex_0, in_hex_1 = notebook_hex_1\<rparr>"

text \<open>
  The output printed under the second cell, in the order \<^verbatim>\<open>pprint\<close> shows it (keys
  sorted). \<open>output_shape\<close> leaves the two identifiers open.
\<close>

definition output_shape :: "string \<Rightarrow> string \<Rightarrow> pydict" where
  "output_shape wid0 wid1 =
     [''participant_id'' \<mapsto> PStr ''testuser'',
      ''payload'' \<mapsto> PList
        [PDict [''Actor'' \<mapsto> PStr ''Royal Saudi Military'',
                ''City'' \<mapsto> PStr (''Al Qa'' @ [CHR 0xC5, CHR 0xA3, CHR 0xC4, CHR 0xAB] @ ''f''),
                ''Country'' \<mapsto> PStr ''Saudi Arabia'',
                ''Event_Date'' \<mapsto> PStr ''2019-08-22'',
                ''Event_Subtype'' \<mapsto> PStr ''Conflict'',
                ''Event_Type'' \<mapsto> PStr ''Military Activity'',
                ''Latitude'' \<mapsto> PFloat 265208 4,
                ''Longitude'' \<mapsto> PFloat 500245 4,
                ''State'' \<mapsto> PStr ''Eastern Province'',
                ''Warning_ID'' \<mapsto> PStr wid0],
         PDict [''Actor'' \<mapsto> PStr ''Royal Saudi Military'',
                ''City'' \<mapsto> PStr (''Al '' @ [CHR 0xE2, CHR 0x80, CHR 0x98] @ ''Aw''
                                   @ [CHR 0xC4, CHR 0x81] @ ''m'' @ [CHR 0xC4, CHR 0xAB] @ ''yah''),
                ''Country'' \<mapsto> PStr ''Saudi Arabia'',
                ''Event_Date'' \<mapsto> PStr ''2019-08-24'',
                ''Event_Subtype'' \<mapsto> PStr ''Conflict'',
                ''Event_Type'' \<mapsto> PStr ''Military Activity'',
                ''Latitude'' \<mapsto> PFloat 265936 4,
                ''Longitude'' \<mapsto> PFloat 499875 4,
                ''State'' \<mapsto> PStr ''Eastern Province'',
                ''Warning_ID'' \<mapsto> PStr wid1]]]"

definition recorded_output :: pydict where
  "recorded_output =
     output_shape ''testuser150f4133679d4448aaa2174c945534bd''
                  ''testuserc392c27b6e3b4983925feeaa6c90dd68''"

subsection \<open>The responses the notebook shows\<close>

text \<open>
  A response object with the six fields of the samples, in the order of the notebook's
  raw cells.
\<close>

definition response_object :: "int \<Rightarrow> pyval \<Rightarrow> int \<Rightarrow> int \<Rightarrow> int \<Rightarrow> string \<Rightarrow> pyval" where
  "response_object n_inserted why n_total n_updated n_invalid res =
     PDict [''New warnings or versions inserted'' \<mapsto> PInt n_inserted,
            ''reason'' \<mapsto> why,
            ''Total operations'' \<mapsto> PInt n_total,
            ''Existing warnings updated'' \<mapsto> PInt n_updated,
            ''Invalid warnings'' \<mapsto> PInt n_invalid,
            ''result'' \<mapsto> PStr res]"

definition dq :: string where
  \<comment> \<open>the double quote inside a message\<close>
  "dq = [CHR 0x22]"

text \<open>The output printed under the third cell.\<close>

definition recorded_response :: pyval where
  "recorded_response = response_object 2 PNone 2 0 0 ''ok''"

text \<open>The sample responses of the section \<^emph>\<open>Results\<close>, in the order of the notebook.\<close>

definition sample_success :: pyval where
  "sample_success = response_object 31 PNone 31 0 0 ''ok''"


definition sample_cannot_update :: pyval where
  "sample_cannot_update =
     response_object 0
       (PStr (''Payload item 1: Cannot update '' @ dq @ ''Country'' @ dq @ '' for '' @ dq
              @ ''Military Activity'' @ dq @ '' events''))
       1 0 1 ''error''"

definition sample_unknown_type :: pyval where
  "sample_unknown_type =
     response_object 0
       (PStr (''Payload item 1: Unknown event type '' @ dq @ ''Not a Mercury Event Type'' @ dq))
       1 0 1 ''error''"

definition sample_missing_attribute :: pyval where
  "sample_missing_attribute =
     response_object 0
       (PStr (''Payload item 4: Missing attribute '' @ dq @ ''Disease'' @ dq))
       4 0 4 ''error''"

definition sample_too_frequent :: pyval where
  "sample_too_frequent =
     response_object 3
       (PStr ''Payload item 1: Existing warnings can only be modified every 4 hours'')
       4 0 1 ''error''"

definition sample_out_of_range :: pyval where
  "sample_out_of_range =
     response_object 0
       (PStr (''Payload item 5: Value not in valid range for '' @ dq @ ''Case_Count'' @ dq))
       5 0 5 ''error''"

definition sample_objects :: "pyval list" where
  "sample_objects =
     [sample_success, sample_cannot_update, sample_unknown_type, sample_missing_attribute,
      sample_too_frequent, sample_out_of_range]"






subsection \<open>The intake endpoint\<close>

text \<open>
  Modelled from the spec: the intake endpoint is a remote service and not part of the
  repository. The specification gives its response as a JSON object with the fields
  \<^verbatim>\<open>result\<close> (\<^verbatim>\<open>"ok"\<close> or \<^verbatim>\<open>"error"\<close>), \<^verbatim>\<open>reason\<close> (a string or null) and integer counters
  for the total operations and the inserted, updated and invalid warnings; the field
  names are those of the notebook's samples. How the service judges the warnings is left
  open: it is the parameter \<open>process\<close> of \<open>intake\<close>, which gives \<open>None\<close> when no response
  arrives.
\<close>

record intake_result =
  ir_ok :: bool
  ir_reason :: "string option"
  ir_total :: int
  ir_inserted :: int
  ir_updated :: int
  ir_invalid :: int

definition result_json :: "intake_result \<Rightarrow> pyval" where
  "result_json a =
     response_object (ir_inserted a)
       (case ir_reason a of None \<Rightarrow> PNone | Some m \<Rightarrow> PStr m)
       (ir_total a) (ir_updated a) (ir_invalid a)
       (if ir_ok a then ''ok'' else ''error'')"




text \<open>The result behind the response recorded under the third cell.\<close>

definition recorded_result :: intake_result where
  "recorded_result =
     \<lparr>ir_ok = True, ir_reason = None, ir_total = 2, ir_inserted = 2, ir_updated = 0,
      ir_invalid = 0\<rparr>"

section \<open>What the cells compute\<close>

lemma format_pair: "format ''{0}{1}'' [a, b] = Some (a @ b)"
  by (simp add: format_def digit_of_def)

lemma format_colon: "format ''{0}:{1}'' [a, b] = Some (a @ '':'' @ b)"
  by (simp add: format_def digit_of_def)

lemma headers_eq: "headers u t = Some [''x-api-key'' \<mapsto> u @ '':'' @ t]"
  by (simp add: headers_def format_colon)

lemma submission_eq:
  "submission u h0 h1 =
     Some [''participant_id'' \<mapsto> PStr u,
           ''payload'' \<mapsto> PList [PDict (warn_content_0 (u @ h0)), PDict (warn_content_1 (u @ h1))]]"
  by (simp add: submission_def warn_id_0_def warn_id_1_def format_pair)

lemma warn_content_0_dom:
  "dom (warn_content_0 w) =
     {''Actor'', ''City'', ''State'', ''Country'', ''Latitude'', ''Longitude'',
      ''Event_Date'', ''Event_Type'', ''Event_Subtype'', ''Warning_ID''}"
  by (simp add: warn_content_0_def insert_commute)

lemma warn_content_1_dom:
  "dom (warn_content_1 w) =
     {''Actor'', ''City'', ''State'', ''Country'', ''Latitude'', ''Longitude'',
      ''Event_Date'', ''Event_Type'', ''Event_Subtype'', ''Warning_ID''}"
  by (simp add: warn_content_1_def insert_commute)

lemma warn_content_0_flat: "warn_content_0 w k = Some v \<Longrightarrow> is_scalar v"
  by (auto simp: warn_content_0_def lat_0_def lon_0_def split: if_splits)

lemma warn_content_1_flat: "warn_content_1 w k = Some v \<Longrightarrow> is_scalar v"
  by (auto simp: warn_content_1_def lat_1_def lon_1_def split: if_splits)

lemma warn_content_0_id: "warn_content_0 w ''Warning_ID'' = Some (PStr w)"
  by (simp add: warn_content_0_def)

lemma warn_content_1_id: "warn_content_1 w ''Warning_ID'' = Some (PStr w)"
  by (simp add: warn_content_1_def)

lemma request_eq:
  "request inp =
     Some (requests_post url [''x-api-key'' \<mapsto> in_userid inp @ '':'' @ in_secret_token inp]
       (PDict [''participant_id'' \<mapsto> PStr (in_userid inp),
               ''payload'' \<mapsto> PList [PDict (warn_content_0 (in_userid inp @ in_hex_0 inp)),
                                      PDict (warn_content_1 (in_userid inp @ in_hex_1 inp))]]))"
  by (simp add: request_def headers_eq submission_eq)

lemma script_eq:
  "request inp = Some req \<Longrightarrow>
   script inp srv =
     (case srv req of
        None \<Rightarrow> ([Printed (req_json req), Posted req], Some ResponseError)
      | Some r \<Rightarrow> ([Printed (req_json req), Posted req, Printed r], None))"
proof -
  assume "request inp = Some req"
  then have req: "requests_post url [''x-api-key'' \<mapsto> in_userid inp @ '':'' @ in_secret_token inp]
       (PDict [''participant_id'' \<mapsto> PStr (in_userid inp),
               ''payload'' \<mapsto> PList [PDict (warn_content_0 (in_userid inp @ in_hex_0 inp)),
                                      PDict (warn_content_1 (in_userid inp @ in_hex_1 inp))]]) = req"
    by (simp only: request_eq option.inject)
  have "req_json req = PDict [''participant_id'' \<mapsto> PStr (in_userid inp),
               ''payload'' \<mapsto> PList [PDict (warn_content_0 (in_userid inp @ in_hex_0 inp)),
                                      PDict (warn_content_1 (in_userid inp @ in_hex_1 inp))]]"
    unfolding req [symmetric] by (simp add: requests_post_def)
  then show ?thesis
    unfolding script_def headers_eq submission_eq option.case Let_def req
    by (simp only:)
qed

lemma output_shape_eq:
  "[''participant_id'' \<mapsto> PStr ''testuser'',
    ''payload'' \<mapsto> PList [PDict (warn_content_0 w0), PDict (warn_content_1 w1)]]
   = output_shape w0 w1"
  unfolding output_shape_def
  by (simp add: fun_eq_iff warn_content_0_def warn_content_1_def
      country_def event_type_def subtype_def event_date_0_def actor_0_def lat_0_def lon_0_def
      city_0_def state_0_def event_date_1_def actor_1_def lat_1_def lon_1_def city_1_def
      state_1_def)






lemma samples_are_results:
  "recorded_response # sample_objects =
     map result_json
       [recorded_result,
        \<lparr>ir_ok = True, ir_reason = None, ir_total = 31, ir_inserted = 31, ir_updated = 0, ir_invalid = 0\<rparr>,
        \<lparr>ir_ok = False,
         ir_reason = Some (''Payload item 1: Cannot update '' @ dq @ ''Country'' @ dq @ '' for '' @ dq
              @ ''Military Activity'' @ dq @ '' events''),
         ir_total = 1, ir_inserted = 0, ir_updated = 0, ir_invalid = 1\<rparr>,
        \<lparr>ir_ok = False,
         ir_reason = Some (''Payload item 1: Unknown event type '' @ dq @ ''Not a Mercury Event Type'' @ dq),
         ir_total = 1, ir_inserted = 0, ir_updated = 0, ir_invalid = 1\<rparr>,
        \<lparr>ir_ok = False,
         ir_reason = Some (''Payload item 4: Missing attribute '' @ dq @ ''Disease'' @ dq),
         ir_total = 4, ir_inserted = 0, ir_updated = 0, ir_invalid = 4\<rparr>,
        \<lparr>ir_ok = False,
         ir_reason = Some ''Payload item 1: Existing warnings can only be modified every 4 hours'',
         ir_total = 4, ir_inserted = 3, ir_updated = 0, ir_invalid = 1\<rparr>,
        \<lparr>ir_ok = False,
         ir_reason = Some (''Payload item 5: Value not in valid range for '' @ dq @ ''Case_Count'' @ dq),
         ir_total = 5, ir_inserted = 0, ir_updated = 0, ir_invalid = 5\<rparr>]"
  by (simp add: sample_objects_def recorded_response_def recorded_result_def sample_success_def
      sample_cannot_update_def sample_unknown_type_def sample_missing_attribute_def
      sample_too_frequent_def sample_out_of_range_def result_json_def)

section \<open>The submission\<close>

text \<open>
  C1: the submission dictionary the script builds has exactly the two keys
  \<^verbatim>\<open>participant_id\<close> and \<^verbatim>\<open>payload\<close>; the first is bound to the string userid, the
  second to the list of the two warning records, \<^verbatim>\<open>warn_content_0\<close> then
  \<^verbatim>\<open>warn_content_1\<close>.
\<close>

theorem submission_has_two_keys:
  "\<exists>s. submission userid h0 h1 = Some s
     \<and> dom s = {''participant_id'', ''payload''}
     \<and> s ''participant_id'' = Some (PStr userid)
     \<and> s ''payload'' = Some (PList [PDict (warn_content_0 (userid @ h0)),
                                     PDict (warn_content_1 (userid @ h1))])"
  by (simp add: submission_eq insert_commute)

text \<open>
  C2: for every userid and every random hex token, each generated warning identifier is
  the userid followed by the token, and nothing else.
\<close>

theorem warn_id_is_concatenation:
  "warn_id_0 userid h = Some (userid @ h) \<and> warn_id_1 userid h = Some (userid @ h)"
  by (simp add: warn_id_0_def warn_id_1_def format_pair)

text \<open>
  C3, as the script has it: every warning record in the payload is a flat mapping with
  exactly ten fields, the actor, the five location fields, the event date, the event type
  and subtype, and the generated identifier. It holds no case count and no other
  attribute.
\<close>

theorem warning_record_fields:
  assumes "submission userid h0 h1 = Some s"
    and "s ''payload'' = Some (PList ws)"
    and "r \<in> set ws"
  shows "\<exists>w. r = PDict w
     \<and> dom w = {''Actor'', ''City'', ''State'', ''Country'', ''Latitude'', ''Longitude'',
                ''Event_Date'', ''Event_Type'', ''Event_Subtype'', ''Warning_ID''}
     \<and> (\<forall>k v. w k = Some v \<longrightarrow> is_scalar v)"
proof -
  from assms(1) have "s ''payload'' = Some (PList [PDict (warn_content_0 (userid @ h0)),
                                                    PDict (warn_content_1 (userid @ h1))])"
    unfolding submission_eq by (auto simp: fun_upd_def)
  with assms(2) have "ws = [PDict (warn_content_0 (userid @ h0)), PDict (warn_content_1 (userid @ h1))]"
    by simp
  with assms(3) consider "r = PDict (warn_content_0 (userid @ h0))" | "r = PDict (warn_content_1 (userid @ h1))"
    by auto
  then show ?thesis
  proof cases
    case 1
    show ?thesis
      unfolding 1
      by (intro exI [of _ "warn_content_0 (userid @ h0)"] conjI refl warn_content_0_dom allI impI)
         (erule warn_content_0_flat)
  next
    case 2
    show ?thesis
      unfolding 2
      by (intro exI [of _ "warn_content_1 (userid @ h1)"] conjI refl warn_content_1_dom allI impI)
         (erule warn_content_1_flat)
  qed
qed

text \<open>The second record of the notebook's run is such a record.\<close>

theorem warning_record_fields_witness:
  "\<exists>w. PDict (warn_content_1 (''testuser'' @ notebook_hex_1)) = PDict w
     \<and> dom w = {''Actor'', ''City'', ''State'', ''Country'', ''Latitude'', ''Longitude'',
                ''Event_Date'', ''Event_Type'', ''Event_Subtype'', ''Warning_ID''}
     \<and> (\<forall>k v. w k = Some v \<longrightarrow> is_scalar v)"
proof -
  let ?a = "PDict (warn_content_0 (''testuser'' @ notebook_hex_0))"
  let ?b = "PDict (warn_content_1 (''testuser'' @ notebook_hex_1))"
  have p: "[''participant_id'' \<mapsto> PStr ''testuser'', ''payload'' \<mapsto> PList [?a, ?b]] ''payload''
             = Some (PList [?a, ?b])"
    by (simp only: fun_upd_same)
  have m: "?b \<in> set [?a, ?b]"
    by (simp only: list.set insert_iff simp_thms)
  show ?thesis
    by (rule warning_record_fields [OF submission_eq p m])
qed

text \<open>
  The statement that every record also carries an attribute such as a case count fails
  on the records of the notebook's run: their keys are the ten above, and
  \<^verbatim>\<open>Case_Count\<close> is not among them.
\<close>

theorem warning_without_case_count:
  "submission ''testuser'' notebook_hex_0 notebook_hex_1 =
     Some [''participant_id'' \<mapsto> PStr ''testuser'',
           ''payload'' \<mapsto> PList [PDict (warn_content_0 (''testuser'' @ notebook_hex_0)),
                                  PDict (warn_content_1 (''testuser'' @ notebook_hex_1))]]
   \<and> warn_content_0 (''testuser'' @ notebook_hex_0) ''Case_Count'' = None
   \<and> dom (warn_content_0 (''testuser'' @ notebook_hex_0)) =
       {''Actor'', ''City'', ''State'', ''Country'', ''Latitude'', ''Longitude'',
        ''Event_Date'', ''Event_Type'', ''Event_Subtype'', ''Warning_ID''}"
  by (simp add: submission_eq warn_content_0_dom) (simp add: warn_content_0_def)

text \<open>
  C6: with the literal values of the notebook, the submission is the structure printed
  under the second cell, in which only the two random tokens inside the \<^verbatim>\<open>Warning_ID\<close>
  fields are not literal; with the tokens of the recorded run it is the recorded output.
\<close>

theorem submission_matches_printed_output:
  "submission ''testuser'' h0 h1 = Some (output_shape (''testuser'' @ h0) (''testuser'' @ h1))
   \<and> submission ''testuser'' notebook_hex_0 notebook_hex_1 = Some recorded_output"
  by (simp add: submission_eq output_shape_eq recorded_output_def notebook_hex_0_def notebook_hex_1_def)

text \<open>
  C8: the \<^verbatim>\<open>Warning_ID\<close> of every warning record in the payload of the submission
  begins with the \<^verbatim>\<open>participant_id\<close> of the submission.
\<close>

theorem warning_id_has_participant_prefix:
  assumes "submission userid h0 h1 = Some s"
    and "s ''participant_id'' = Some (PStr pid)"
    and "s ''payload'' = Some (PList ws)"
    and "r \<in> set ws"
  shows "\<exists>w wid. r = PDict w \<and> w ''Warning_ID'' = Some (PStr wid) \<and> prefix pid wid"
proof -
  from assms(1) have s: "s = [''participant_id'' \<mapsto> PStr userid,
      ''payload'' \<mapsto> PList [PDict (warn_content_0 (userid @ h0)), PDict (warn_content_1 (userid @ h1))]]"
    by (simp only: submission_eq option.inject)
  from assms(2) have pid: "pid = userid"
    unfolding s by simp
  from assms(3) have "ws = [PDict (warn_content_0 (userid @ h0)), PDict (warn_content_1 (userid @ h1))]"
    unfolding s by simp
  with assms(4) consider "r = PDict (warn_content_0 (userid @ h0))" | "r = PDict (warn_content_1 (userid @ h1))"
    by auto
  then show ?thesis
  proof cases
    case 1
    show ?thesis
      unfolding 1 pid
      by (intro exI [of _ "warn_content_0 (userid @ h0)"] exI [of _ "userid @ h0"] conjI refl
          warn_content_0_id prefixI [OF refl])
  next
    case 2
    show ?thesis
      unfolding 2 pid
      by (intro exI [of _ "warn_content_1 (userid @ h1)"] exI [of _ "userid @ h1"] conjI refl
          warn_content_1_id prefixI [OF refl])
  qed
qed

text \<open>The first record of the notebook's run begins with \<^verbatim>\<open>testuser\<close>.\<close>

theorem warning_id_has_participant_prefix_witness:
  "\<exists>w wid. PDict (warn_content_0 (''testuser'' @ notebook_hex_0)) = PDict w
     \<and> w ''Warning_ID'' = Some (PStr wid) \<and> prefix ''testuser'' wid"
proof -
  let ?a = "PDict (warn_content_0 (''testuser'' @ notebook_hex_0))"
  let ?b = "PDict (warn_content_1 (''testuser'' @ notebook_hex_1))"
  let ?s = "[''participant_id'' \<mapsto> PStr ''testuser'', ''payload'' \<mapsto> PList [?a, ?b]]"
  have i: "?s ''participant_id'' = Some (PStr ''testuser'')"
    by simp
  have p: "?s ''payload'' = Some (PList [?a, ?b])"
    by (simp only: fun_upd_same)
  have m: "?a \<in> set [?a, ?b]"
    by (simp only: list.set insert_iff simp_thms)
  show ?thesis
    by (rule warning_id_has_participant_prefix [OF submission_eq i p m])
qed

text \<open>
  C10: whenever the two random tokens differ, the two warning identifiers are distinct
  strings.
\<close>

theorem distinct_tokens_give_distinct_ids:
  assumes "h0 \<noteq> h1"
  shows "\<exists>i0 i1. warn_id_0 userid h0 = Some i0 \<and> warn_id_1 userid h1 = Some i1 \<and> i0 \<noteq> i1"
  using assms by (simp add: warn_id_0_def warn_id_1_def format_pair)

text \<open>The two tokens of the recorded run differ.\<close>

theorem distinct_tokens_give_distinct_ids_witness:
  "notebook_hex_0 \<noteq> notebook_hex_1
   \<and> (\<exists>i0 i1. warn_id_0 ''testuser'' notebook_hex_0 = Some i0
        \<and> warn_id_1 ''testuser'' notebook_hex_1 = Some i1 \<and> i0 \<noteq> i1)"
proof -
  have d: "notebook_hex_0 \<noteq> notebook_hex_1"
    by (simp add: notebook_hex_0_def notebook_hex_1_def)
  show ?thesis
    using d distinct_tokens_give_distinct_ids [OF d, of "''testuser''"] by simp
qed

section \<open>The request\<close>

text \<open>
  C4: the request the script issues is a POST to the fixed address of the intake, with
  the header \<^verbatim>\<open>Content-Type: application/json\<close>, the header \<^verbatim>\<open>x-api-key\<close> holding the
  participant id and the token joined by a colon, and the submission as JSON body.
\<close>

theorem request_is_post_with_api_key:
  "\<exists>req s. request inp = Some req
     \<and> req_method req = ''POST''
     \<and> req_url req = ''https://87g554i96c.execute-api.us-east-1.amazonaws.com/Production/warning/intake''
     \<and> req_headers req ''Content-Type'' = Some ''application/json''
     \<and> req_headers req ''x-api-key'' = Some (in_userid inp @ '':'' @ in_secret_token inp)
     \<and> submission (in_userid inp) (in_hex_0 inp) (in_hex_1 inp) = Some s
     \<and> req_json req = PDict s
     \<and> filter is_post (fst (script inp srv)) = [Posted req]"
  by (simp add: script_eq [OF request_eq] split: option.split)
     (simp add: request_eq submission_eq requests_post_def url_def)

text \<open>
  C9: the secret token reaches the \<^verbatim>\<open>x-api-key\<close> header and nothing else. Two runs
  that differ only in the secret token build the same submission and send it as the same
  body, to the same address, with the same headers apart from \<^verbatim>\<open>x-api-key\<close>.
\<close>

theorem secret_token_only_in_api_key:
  assumes "in_userid a = in_userid b"
    and "in_hex_0 a = in_hex_0 b"
    and "in_hex_1 a = in_hex_1 b"
  shows "\<exists>qa qb s. request a = Some qa \<and> request b = Some qb
     \<and> submission (in_userid a) (in_hex_0 a) (in_hex_1 a) = Some s
     \<and> submission (in_userid b) (in_hex_0 b) (in_hex_1 b) = Some s
     \<and> req_json qa = PDict s \<and> req_json qb = PDict s
     \<and> req_method qa = req_method qb \<and> req_url qa = req_url qb
     \<and> (\<forall>k. k \<noteq> ''x-api-key'' \<longrightarrow> req_headers qa k = req_headers qb k)
     \<and> req_headers qa ''x-api-key'' = Some (in_userid a @ '':'' @ in_secret_token a)
     \<and> req_headers qb ''x-api-key'' = Some (in_userid b @ '':'' @ in_secret_token b)"
  unfolding request_eq submission_eq assms
  by (simp add: requests_post_def)

text \<open>The notebook's run, and the same run with another token.\<close>

theorem secret_token_only_in_api_key_witness:
  "\<exists>qa qb s. request notebook_inputs = Some qa
     \<and> request (notebook_inputs\<lparr>in_secret_token := ''anotherkey''\<rparr>) = Some qb
     \<and> submission ''testuser'' notebook_hex_0 notebook_hex_1 = Some s
     \<and> req_json qa = PDict s \<and> req_json qb = PDict s
     \<and> req_headers qa ''x-api-key'' = Some ''testuser:mysecretkey''
     \<and> req_headers qb ''x-api-key'' = Some ''testuser:anotherkey''"
  using secret_token_only_in_api_key [of notebook_inputs "notebook_inputs\<lparr>in_secret_token := ''anotherkey''\<rparr>"]
  by (simp add: notebook_inputs_def) blast

section \<open>The run\<close>




section \<open>The response\<close>



end
